theory Spec2Isabelle
  imports Main "HOL-Library.Sublist"
begin

section \<open>Python values and exceptions\<close>

text \<open>
  The module \<^verbatim>\<open>lib/paperless.py\<close> works on dynamically typed values: the argument of
  \<^verbatim>\<open>apt_satisfy\<close> is a string or an iterable, and the release data is whatever
  \<^verbatim>\<open>json.loads\<close> returns. \<open>pyobj\<close> holds the values that occur. A \<open>PyDict\<close> is
  an association list in insertion order whose keys are distinct (as the keys of a Python
  dict are). A string is a list of 8-bit characters.
\<close>

type_synonym bytes = string

datatype pyobj =
    PyNone
  | PyBool bool
  | PyInt int
  | PyStr string
  | PyBytes bytes
  | PyByteArray bytes
  | PyList "pyobj list"
  | PyDict "(string \<times> pyobj) list"

text \<open>
  \<open>lib_error\<close>: what the library calls the module relies on may raise by themselves
  (\<^verbatim>\<open>urlopen\<close>, \<^verbatim>\<open>json.loads\<close>, \<^verbatim>\<open>open\<close>, \<^verbatim>\<open>NamedTemporaryFile\<close>, starting a process).
  \<open>py_error\<close>: every exception that can leave a function of the module.
  \<open>Exception msg\<close> is the module's own \<^verbatim>\<open>raise Exception(msg)\<close>,
  \<open>CalledProcessError\<close> is what \<^verbatim>\<open>check_call\<close> raises on a non-zero exit code.
\<close>

datatype lib_error =
    HTTPError int
  | URLError
  | UnicodeDecodeError
  | JSONDecodeError
  | FileNotFoundError
  | FileExistsError
  | PermissionError
  | OtherError string

datatype py_error =
    Exception string
  | KeyError string
  | TypeError
  | AttributeError
  | CalledProcessError int
  | Raised lib_error

subsection \<open>Operations on values\<close>

text \<open>\<^verbatim>\<open>obj[key]\<close> with a string key: only a dict can be subscripted by a string.\<close>

fun py_getitem :: "pyobj \<Rightarrow> string \<Rightarrow> py_error + pyobj" where
  "py_getitem (PyDict kvs) k =
     (case map_of kvs k of None \<Rightarrow> Inl (KeyError k) | Some v \<Rightarrow> Inr v)"
| "py_getitem _ k = Inl TypeError"

text \<open>\<^verbatim>\<open>iter(obj)\<close>, run to the end: the elements in order, or \<^verbatim>\<open>TypeError\<close>.\<close>

fun py_iter :: "pyobj \<Rightarrow> py_error + pyobj list" where
  "py_iter (PyList xs) = Inr xs"
| "py_iter (PyDict kvs) = Inr (map (\<lambda>kv. PyStr (fst kv)) kvs)"
| "py_iter (PyStr s) = Inr (map (\<lambda>c. PyStr [c]) s)"
| "py_iter (PyBytes b) = Inr (map (\<lambda>c. PyInt (of_char c)) b)"
| "py_iter (PyByteArray b) = Inr (map (\<lambda>c. PyInt (of_char c)) b)"
| "py_iter _ = Inl TypeError"

text \<open>\<^verbatim>\<open>isinstance(obj, (str, bytes, bytearray))\<close>\<close>

fun is_str_or_bytes :: "pyobj \<Rightarrow> bool" where
  "is_str_or_bytes (PyStr s) = True"
| "is_str_or_bytes (PyBytes b) = True"
| "is_str_or_bytes (PyByteArray b) = True"
| "is_str_or_bytes _ = False"

text \<open>\<^verbatim>\<open>name.endswith(extension)\<close> with a \<^verbatim>\<open>str\<close> argument.\<close>

fun py_endswith :: "pyobj \<Rightarrow> string \<Rightarrow> py_error + bool" where
  "py_endswith (PyStr s) ext = Inr (suffix ext s)"
| "py_endswith (PyBytes b) ext = Inl TypeError"
| "py_endswith (PyByteArray b) ext = Inl TypeError"
| "py_endswith _ ext = Inl AttributeError"

text \<open>\<^verbatim>\<open>str.lower\<close> on the characters \<^verbatim>\<open>A\<close> to \<^verbatim>\<open>Z\<close>; every other character is kept.\<close>

definition lower_char :: "char \<Rightarrow> char" where
  "lower_char c =
     (let n = (of_char c :: nat) in if 65 \<le> n \<and> n \<le> 90 then char_of (n + 32) else c)"

definition py_lower :: "string \<Rightarrow> string" where
  "py_lower s = map lower_char s"

text \<open>\<^verbatim>\<open>str(n)\<close> for an integer: decimal digits, with a minus sign when negative.\<close>

definition digit_char :: "nat \<Rightarrow> char" where
  "digit_char d = char_of (48 + d)"

function str_nat :: "nat \<Rightarrow> string" where
  "str_nat n = (if n < 10 then [digit_char n] else str_nat (n div 10) @ [digit_char (n mod 10)])"
  by pat_completeness auto
termination
  by (relation "measure id") auto

declare str_nat.simps [simp del]

definition py_str_int :: "int \<Rightarrow> string" where
  "py_str_int i = (if i < 0 then CHR ''-'' # str_nat (nat (- i)) else str_nat (nat i))"

section \<open>The host: what the module reads and calls\<close>

record response =
  status :: int
  body :: bytes

text \<open>
  Everything outside the module is a field of \<open>host\<close>:
  \<^item> \<open>machine\<close>: the result of \<^verbatim>\<open>platform.machine()\<close>;
  \<^item> \<open>environ\<close>: \<^verbatim>\<open>os.environ\<close>;
  \<^item> \<open>run cmd env\<close>: running the command \<open>cmd\<close> with environment \<open>env\<close>
    (\<open>None\<close>: inherited) to its end gives its exit code, or the process cannot be started;
  \<^item> \<open>http k url\<close>: what \<^verbatim>\<open>urlopen(url)\<close> yields when \<open>k\<close> requests were made before;
  \<^item> \<open>json_loads data\<close>: \<^verbatim>\<open>json.loads(data.decode("utf-8"))\<close>;
  \<^item> \<open>open_error path\<close>: the error of creating or truncating \<open>path\<close> for writing, if any;
  \<^item> \<open>tempdir\<close>, \<open>random_names\<close>: the directory of temporary files and the
    random name parts \<^verbatim>\<open>tempfile\<close> tries, in order.
\<close>

record host =
  machine :: string
  environ :: "(string \<times> string) list"
  run :: "pyobj list \<Rightarrow> (string \<times> string) list option \<Rightarrow> lib_error + int"
  http :: "nat \<Rightarrow> pyobj \<Rightarrow> lib_error + response"
  json_loads :: "bytes \<Rightarrow> lib_error + pyobj"
  open_error :: "string \<Rightarrow> lib_error option"
  tempdir :: string
  random_names :: "string list"

section \<open>The probes\<close>

text \<open>
  \<^verbatim>\<open>
  def machine_is_arm() -> bool:
      architecture = machine().lower()
      return architecture.startswith("arm") or architecture.startswith("aarch")
  \<close>
\<close>

definition machine_is_arm :: "host \<Rightarrow> bool" where
  "machine_is_arm h =
     (let architecture = py_lower (machine h)
      in prefix ''arm'' architecture \<or> prefix ''aarch'' architecture)"

section \<open>The world: what the module changes\<close>

text \<open>
  \<open>files\<close> is the file system (path to content), \<open>requests\<close> the URLs passed to
  \<^verbatim>\<open>urlopen\<close> so far and \<open>commands\<close> the commands passed to \<^verbatim>\<open>check_call\<close> so far,
  both oldest first. A function of the module takes the world and returns its result,
  a value or the exception raised, with the world as it is then.
\<close>

record world =
  files :: "string \<rightharpoonup> bytes"
  requests :: "pyobj list"
  commands :: "(pyobj list \<times> (string \<times> string) list option) list"

type_synonym 'a io = "world \<Rightarrow> (py_error + 'a) \<times> world"

definition io_return :: "'a \<Rightarrow> 'a io" where
  "io_return x w = (Inr x, w)"

definition io_raise :: "py_error \<Rightarrow> 'a io" where
  "io_raise e w = (Inl e, w)"

definition io_lift :: "py_error + 'a \<Rightarrow> 'a io" where
  "io_lift r w = (r, w)"

definition io_bind :: "'a io \<Rightarrow> ('a \<Rightarrow> 'b io) \<Rightarrow> 'b io" where
  "io_bind m f w = (case m w of (Inl e, w') \<Rightarrow> (Inl e, w') | (Inr x, w') \<Rightarrow> f x w')"

definition err_bind :: "py_error + 'a \<Rightarrow> ('a \<Rightarrow> py_error + 'b) \<Rightarrow> py_error + 'b" where
  "err_bind r f = (case r of Inl e \<Rightarrow> Inl e | Inr x \<Rightarrow> f x)"

text \<open>A list comprehension \<^verbatim>\<open>[f(x) for x in xs]\<close>: the first exception ends it.\<close>

fun map_err :: "('a \<Rightarrow> py_error + 'b) \<Rightarrow> 'a list \<Rightarrow> py_error + 'b list" where
  "map_err f [] = Inr []"
| "map_err f (x # xs) =
     (case f x of
        Inl e \<Rightarrow> Inl e
      | Inr y \<Rightarrow> (case map_err f xs of Inl e \<Rightarrow> Inl e | Inr ys \<Rightarrow> Inr (y # ys)))"

subsection \<open>Library calls\<close>

text \<open>
  \<^verbatim>\<open>subprocess.check_call(cmd, env=env)\<close>: the command is run; exit code 0 returns,
  any other exit code raises \<^verbatim>\<open>CalledProcessError\<close>.
\<close>

definition check_call :: "host \<Rightarrow> pyobj list \<Rightarrow> (string \<times> string) list option \<Rightarrow> unit io" where
  "check_call h cmd env w =
     (let w' = w\<lparr>commands := commands w @ [(cmd, env)]\<rparr>
      in case run h cmd env of
           Inl e \<Rightarrow> (Inl (Raised e), w')
         | Inr rc \<Rightarrow> if rc = 0 then (Inr (), w') else (Inl (CalledProcessError rc), w'))"

text \<open>\<^verbatim>\<open>urlopen(url)\<close>: the request is made, and answered by the host.\<close>

definition urlopen :: "host \<Rightarrow> pyobj \<Rightarrow> response io" where
  "urlopen h url w =
     (let w' = w\<lparr>requests := requests w @ [url]\<rparr>
      in case http h (length (requests w)) url of
           Inl e \<Rightarrow> (Inl (Raised e), w')
         | Inr r \<Rightarrow> (Inr r, w'))"

text \<open>
  \<^verbatim>\<open>sep.join(obj)\<close>: the items of the iterable, which all have to be strings; the first
  item, then the separator and the item for each one after it.
\<close>

fun str_items :: "pyobj list \<Rightarrow> py_error + string list" where
  "str_items [] = Inr []"
| "str_items (PyStr s # xs) =
     (case str_items xs of Inl e \<Rightarrow> Inl e | Inr ss \<Rightarrow> Inr (s # ss))"
| "str_items (_ # xs) = Inl TypeError"

fun join_strings :: "string \<Rightarrow> string list \<Rightarrow> string" where
  "join_strings sep [] = []"
| "join_strings sep (s # ss) = foldl (\<lambda>res item. res @ sep @ item) s ss"

definition py_join :: "string \<Rightarrow> pyobj \<Rightarrow> py_error + string" where
  "py_join sep obj =
     err_bind (py_iter obj) (\<lambda>items.
     err_bind (str_items items) (\<lambda>ss. Inr (join_strings sep ss)))"

text \<open>\<^verbatim>\<open>{**d, key: value}\<close>: the key keeps its place if it is there, and is added last if not.\<close>

fun dict_set :: "string \<Rightarrow> 'v \<Rightarrow> (string \<times> 'v) list \<Rightarrow> (string \<times> 'v) list" where
  "dict_set k v [] = [(k, v)]"
| "dict_set k v ((k', v') # kvs) =
     (if k' = k then (k, v) # kvs else (k', v') # dict_set k v kvs)"

text \<open>
  \<^verbatim>\<open>open(path, mode="wb")\<close> creates the file or truncates it. A file object is
  represented by its \<^verbatim>\<open>name\<close>.
\<close>

definition open_wb :: "host \<Rightarrow> string \<Rightarrow> string io" where
  "open_wb h path w =
     (case open_error h path of
        Some e \<Rightarrow> (Inl (Raised e), w)
      | None \<Rightarrow> (Inr path, w\<lparr>files := (files w)(path \<mapsto> [])\<rparr>))"

text \<open>\<^verbatim>\<open>os.path.join(a, b)\<close>\<close>

definition path_join :: "string \<Rightarrow> string \<Rightarrow> string" where
  "path_join a b =
     (if prefix ''/'' b then b
      else if a = [] \<or> suffix ''/'' a then a @ b
      else a @ ''/'' @ b)"

text \<open>
  \<^verbatim>\<open>NamedTemporaryFile(mode="wb", suffix=suffix, delete=False)\<close>: the file is
  \<^verbatim>\<open>tmp\<close>, a random name and the suffix, in the directory of temporary files; a name
  that exists already is skipped, and \<^verbatim>\<open>FileExistsError\<close> is raised when every name
  exists. The file is created empty. Nothing removes it (\<^verbatim>\<open>delete=False\<close>).
\<close>

fun mkstemp_inner :: "(string \<rightharpoonup> bytes) \<Rightarrow> string \<Rightarrow> string \<Rightarrow> string list \<Rightarrow> string option" where
  "mkstemp_inner fs dir suf [] = None"
| "mkstemp_inner fs dir suf (name # names) =
     (let file = path_join dir (''tmp'' @ name @ suf)
      in if fs file \<noteq> None then mkstemp_inner fs dir suf names else Some file)"

definition NamedTemporaryFile :: "host \<Rightarrow> string \<Rightarrow> string io" where
  "NamedTemporaryFile h suf w =
     (case mkstemp_inner (files w) (tempdir h) suf (random_names h) of
        None \<Rightarrow> (Inl (Raised FileExistsError), w)
      | Some file \<Rightarrow>
          (case open_error h file of
             Some e \<Rightarrow> (Inl (Raised e), w)
           | None \<Rightarrow> (Inr file, w\<lparr>files := (files w)(file \<mapsto> [])\<rparr>)))"

text \<open>\<^verbatim>\<open>output.write(data)\<close> adds the data at the end of the file.\<close>

definition file_write :: "string \<Rightarrow> bytes \<Rightarrow> unit io" where
  "file_write name data w =
     (Inr (), w\<lparr>files := (files w)(name \<mapsto>
        (case files w name of None \<Rightarrow> data | Some old \<Rightarrow> old @ data))\<rparr>)"

section \<open>Packages and users\<close>

text \<open>
  \<^verbatim>\<open>
  def apt_update() -> None:
      cmd = ["apt-get", "update"]
      check_call(cmd, universal_newlines=True)
  \<close>
\<close>

definition apt_update :: "host \<Rightarrow> unit io" where
  "apt_update h = check_call h [PyStr ''apt-get'', PyStr ''update''] None"

text \<open>
  \<^verbatim>\<open>
  def is_iterish(obj: any) -> bool:
      try:
          iter(obj)  # Will raise TypeError if not iterable
          return not isinstance(obj, (str, bytes, bytearray))
      except TypeError:
          return False
  \<close>
\<close>

definition is_iterish :: "pyobj \<Rightarrow> bool" where
  "is_iterish obj =
     (case py_iter obj of
        Inr items \<Rightarrow> \<not> is_str_or_bytes obj
      | Inl e \<Rightarrow> False)"

text \<open>
  \<^verbatim>\<open>
  def apt_satisfy(packages: Union[Iterable[str], str]) -> None:
      if is_iterish(packages):
          packages = ", ".join(packages)

      cmd = ["apt", "satisfy", "-y", packages]
      env = {**environ, "DEBIAN_FRONTEND": "noninteractive"}
      check_call(cmd, universal_newlines=True, env=env)
  \<close>
  \<open>satisfy_argument\<close> is the value of \<^verbatim>\<open>packages\<close> after the \<^verbatim>\<open>if\<close>.
\<close>

definition satisfy_argument :: "pyobj \<Rightarrow> py_error + pyobj" where
  "satisfy_argument packages =
     (if is_iterish packages
      then err_bind (py_join '', '' packages) (\<lambda>s. Inr (PyStr s))
      else Inr packages)"

definition apt_satisfy :: "host \<Rightarrow> pyobj \<Rightarrow> unit io" where
  "apt_satisfy h packages =
     io_bind (io_lift (satisfy_argument packages)) (\<lambda>packages.
       check_call h [PyStr ''apt'', PyStr ''satisfy'', PyStr ''-y'', packages]
         (Some (dict_set ''DEBIAN_FRONTEND'' ''noninteractive'' (environ h))))"

text \<open>
  \<^verbatim>\<open>
  def linux_user_exists(user):
      cmd = ["getent", "passwd", user]
      try:
          check_call(cmd)
          return True
      except CalledProcessError:
          return False
  \<close>
\<close>

definition linux_user_exists :: "host \<Rightarrow> pyobj \<Rightarrow> bool io" where
  "linux_user_exists h user w =
     (case check_call h [PyStr ''getent'', PyStr ''passwd'', user] None w of
        (Inr u, w') \<Rightarrow> (Inr True, w')
      | (Inl (CalledProcessError rc), w') \<Rightarrow> (Inr False, w')
      | (Inl e, w') \<Rightarrow> (Inl e, w'))"

section \<open>Releases\<close>

text \<open>
  \<^verbatim>\<open>
  def gh_list_releases(user: str, repo: str) -> List[str]:
      url = f"https://api.github.com/repos/{user}/{repo}/releases"

      with urlopen(url) as response:
          if response.status != 200:  # ruh-roh
              raise Exception(f"HTTP error {response.status}")

          data = response.read()
          releases = json.loads(data.decode("utf-8"))

      return [release["tag_name"] for release in releases]
  \<close>
\<close>

definition releases_url :: "string \<Rightarrow> string \<Rightarrow> string" where
  "releases_url user repo = ''https://api.github.com/repos/'' @ user @ ''/'' @ repo @ ''/releases''"

definition gh_list_releases :: "host \<Rightarrow> string \<Rightarrow> string \<Rightarrow> pyobj list io" where
  "gh_list_releases h user repo =
     io_bind (urlopen h (PyStr (releases_url user repo))) (\<lambda>response.
       if status response \<noteq> 200
       then io_raise (Exception (''HTTP error '' @ py_str_int (status response)))
       else io_bind (io_lift (case json_loads h (body response) of
                                Inl e \<Rightarrow> Inl (Raised e) | Inr v \<Rightarrow> Inr v)) (\<lambda>releases.
              io_lift (err_bind (py_iter releases)
                (map_err (\<lambda>release. py_getitem release ''tag_name'')))))"

text \<open>
  \<^verbatim>\<open>
  def gh_download_release_asset(user, repo, tag, extension=".tar.xz", destination=None):
      url = f"https://api.github.com/repos/{user}/{repo}/releases/tags/{tag}"

      with urlopen(url) as response:
          if response.status != 200:  # b0rked
              raise Exception(f"HTTP error {response.status}")

          data = response.read()
          release_info = json.loads(data.decode("utf-8"))

      # Find the specified asset
      asset_url = None
      for asset in release_info["assets"]:
          if asset["name"].endswith(extension):
              asset_url = asset["browser_download_url"]
              break

      if asset_url is None:
          raise Exception(f"No asset with extension {extension} found for release {tag}")

      # Download the asset
      with urlopen(asset_url) as response, open(
          destination, mode="wb"
      ) if destination else NamedTemporaryFile(
          mode="wb", suffix=extension, delete=False
      ) as output:
          output.write(response.read())
          return output.name
  \<close>
  \<open>find_asset\<close> is the \<^verbatim>\<open>for\<close> loop: its result is the value of \<^verbatim>\<open>asset_url\<close> after
  the loop. \<open>open_output\<close> is the conditional expression that opens the output file.
\<close>

definition release_url :: "string \<Rightarrow> string \<Rightarrow> string \<Rightarrow> string" where
  "release_url user repo tag =
     ''https://api.github.com/repos/'' @ user @ ''/'' @ repo @ ''/releases/tags/'' @ tag"

fun find_asset :: "string \<Rightarrow> pyobj list \<Rightarrow> py_error + pyobj" where
  "find_asset extension [] = Inr PyNone"
| "find_asset extension (asset # assets) =
     (case py_getitem asset ''name'' of
        Inl e \<Rightarrow> Inl e
      | Inr name \<Rightarrow>
          (case py_endswith name extension of
             Inl e \<Rightarrow> Inl e
           | Inr matches \<Rightarrow>
               if matches then py_getitem asset ''browser_download_url''
               else find_asset extension assets))"

definition open_output :: "host \<Rightarrow> string \<Rightarrow> string option \<Rightarrow> string io" where
  "open_output h extension destination =
     (case destination of
        None \<Rightarrow> NamedTemporaryFile h extension
      | Some d \<Rightarrow> if d \<noteq> [] then open_wb h d else NamedTemporaryFile h extension)"

definition gh_download_release_asset ::
  "host \<Rightarrow> string \<Rightarrow> string \<Rightarrow> string \<Rightarrow> string \<Rightarrow> string option \<Rightarrow> string io" where
  "gh_download_release_asset h user repo tag extension destination =
     io_bind (urlopen h (PyStr (release_url user repo tag))) (\<lambda>response.
       if status response \<noteq> 200
       then io_raise (Exception (''HTTP error '' @ py_str_int (status response)))
       else io_bind (io_lift (case json_loads h (body response) of
                                Inl e \<Rightarrow> Inl (Raised e) | Inr v \<Rightarrow> Inr v)) (\<lambda>release_info.
         io_bind (io_lift (err_bind (py_getitem release_info ''assets'') (\<lambda>assets.
                           err_bind (py_iter assets) (find_asset extension)))) (\<lambda>asset_url.
           if asset_url = PyNone
           then io_raise (Exception (''No asset with extension '' @ extension @
                                       '' found for release '' @ tag))
           else io_bind (urlopen h asset_url) (\<lambda>response.
                  io_bind (open_output h extension destination) (\<lambda>output.
                    io_bind (file_write output (body response)) (\<lambda>u.
                      io_return output))))))"

text \<open>
  \<^verbatim>\<open>
  gh_paperless_user = "paperless-ngx"
  gh_paperless_repo = "paperless-ngx"

  def list_paperless_versions() -> List[str]:
      return gh_list_releases(gh_paperless_user, gh_paperless_repo)

  def download_paperless_archive(tag: str) -> str:
      return gh_download_release_asset(
          gh_paperless_user, gh_paperless_repo, tag, ".tar.xz"
      )
  \<close>
\<close>

definition gh_paperless_user :: string where
  "gh_paperless_user = ''paperless-ngx''"

definition gh_paperless_repo :: string where
  "gh_paperless_repo = ''paperless-ngx''"

definition list_paperless_versions :: "host \<Rightarrow> pyobj list io" where
  "list_paperless_versions h = gh_list_releases h gh_paperless_user gh_paperless_repo"

definition download_paperless_archive :: "host \<Rightarrow> string \<Rightarrow> string io" where
  "download_paperless_archive h tag =
     gh_download_release_asset h gh_paperless_user gh_paperless_repo tag ''.tar.xz'' None"

section \<open>What the specification says, in its own words\<close>

text \<open>
  The specification of \<^verbatim>\<open>satisfy_packages\<close>: a sequence is joined with \<^verbatim>\<open>", "\<close> into one
  argument, in the order of the input.
\<close>

fun comma_separated :: "string list \<Rightarrow> string" where
  "comma_separated [] = []"
| "comma_separated [x] = x"
| "comma_separated (x # y # ys) = x @ '', '' @ comma_separated (y # ys)"

section \<open>An example host\<close>

text \<open>
  A host to run the module on. Project \<^verbatim>\<open>o/p\<close> has the releases \<^verbatim>\<open>v1\<close>, \<^verbatim>\<open>v2\<close> and
  \<^verbatim>\<open>v3\<close>. Release \<^verbatim>\<open>v1\<close> has the assets \<^verbatim>\<open>x.zip\<close>, \<^verbatim>\<open>y.tar.xz\<close> and \<^verbatim>\<open>z.tar.xz\<close> and,
  last in its asset list, a \<^verbatim>\<open>null\<close>; release \<^verbatim>\<open>v2\<close> has \<^verbatim>\<open>x.zip\<close> only; the only asset
  of release \<^verbatim>\<open>v3\<close> is at a URL that answers 404. Every other URL answers 404 too.
  The user \<^verbatim>\<open>root\<close> exists and the user \<^verbatim>\<open>ghost\<close> does not. One temporary file exists already.
\<close>

definition example_tags_body :: bytes where
  "example_tags_body = ''[{\"tag_name\":\"v1\"},{\"tag_name\":\"v2\"}]''"

definition example_v1_body :: bytes where
  "example_v1_body = ''{\"assets\":[{\"name\":\"x.zip\",\"browser_download_url\":\"Z\"},{\"name\":\"y.tar.xz\",\"browser_download_url\":\"U\"},{\"name\":\"z.tar.xz\",\"browser_download_url\":\"V\"},null]}''"

definition example_v2_body :: bytes where
  "example_v2_body = ''{\"assets\":[{\"name\":\"x.zip\",\"browser_download_url\":\"Z\"}]}''"

definition example_v3_body :: bytes where
  "example_v3_body = ''{\"assets\":[{\"name\":\"y.tar.xz\",\"browser_download_url\":\"E\"}]}''"

definition example_asset :: "string \<Rightarrow> string \<Rightarrow> pyobj" where
  "example_asset name url = PyDict [(''name'', PyStr name), (''browser_download_url'', PyStr url)]"

definition example_loads :: "bytes \<Rightarrow> lib_error + pyobj" where
  "example_loads data =
     (if data = example_tags_body
      then Inr (PyList [PyDict [(''tag_name'', PyStr ''v1'')], PyDict [(''tag_name'', PyStr ''v2'')]])
      else if data = example_v1_body
      then Inr (PyDict [(''assets'', PyList [example_asset ''x.zip'' ''Z'',
             example_asset ''y.tar.xz'' ''U'', example_asset ''z.tar.xz'' ''V'', PyNone])])
      else if data = example_v2_body
      then Inr (PyDict [(''assets'', PyList [example_asset ''x.zip'' ''Z''])])
      else if data = example_v3_body
      then Inr (PyDict [(''assets'', PyList [example_asset ''y.tar.xz'' ''E''])])
      else Inl JSONDecodeError)"

definition example_http :: "nat \<Rightarrow> pyobj \<Rightarrow> lib_error + response" where
  "example_http k url =
     (if url = PyStr ''https://api.github.com/repos/o/p/releases''
      then Inr \<lparr>status = 200, body = example_tags_body\<rparr>
      else if url = PyStr ''https://api.github.com/repos/o/p/releases/tags/v1''
      then Inr \<lparr>status = 200, body = example_v1_body\<rparr>
      else if url = PyStr ''https://api.github.com/repos/o/p/releases/tags/v2''
      then Inr \<lparr>status = 200, body = example_v2_body\<rparr>
      else if url = PyStr ''https://api.github.com/repos/o/p/releases/tags/v3''
      then Inr \<lparr>status = 200, body = example_v3_body\<rparr>
      else if url = PyStr ''U''
      then Inr \<lparr>status = 200, body = ''archive''\<rparr>
      else Inr \<lparr>status = 404, body = ''Not Found''\<rparr>)"

definition example_run :: "pyobj list \<Rightarrow> (string \<times> string) list option \<Rightarrow> lib_error + int" where
  "example_run cmd env =
     (if cmd = [PyStr ''getent'', PyStr ''passwd'', PyStr ''root''] then Inr 0
      else if cmd = [PyStr ''getent'', PyStr ''passwd'', PyStr ''ghost''] then Inr 2
      else Inr 0)"

definition example_host :: host where
  "example_host =
     \<lparr>machine = ''AArch64'',
      environ = [(''PATH'', ''/usr/bin'')],
      run = example_run,
      http = example_http,
      json_loads = example_loads,
      open_error = (\<lambda>path. if path = [] then Some FileNotFoundError else None),
      tempdir = ''/tmp'',
      random_names = [''abcd1234'', ''efgh5678'']\<rparr>"

text \<open>The same host without the \<^verbatim>\<open>getent\<close> executable.\<close>

definition example_host_no_getent :: host where
  "example_host_no_getent = example_host\<lparr>run := \<lambda>cmd env. Inl FileNotFoundError\<rparr>"

text \<open>The same host when \<^verbatim>\<open>urlopen\<close> raises \<^verbatim>\<open>HTTPError\<close> 404 for every request.\<close>

definition example_host_http_error :: host where
  "example_host_http_error = example_host\<lparr>http := \<lambda>k url. Inl (HTTPError 404)\<rparr>"

text \<open>
  The same host with one more release, \<^verbatim>\<open>v4\<close>, whose only asset is named \<^verbatim>\<open>y.tar.xz\<close>
  and has \<^verbatim>\<open>null\<close> as its download URL.
\<close>

definition example_v4_body :: bytes where
  "example_v4_body = ''{\"assets\":[{\"name\":\"y.tar.xz\",\"browser_download_url\":null}]}''"

definition example_host_null_url :: host where
  "example_host_null_url = example_host
     \<lparr>http := \<lambda>k url.
        if url = PyStr ''https://api.github.com/repos/o/p/releases/tags/v4''
        then Inr \<lparr>status = 200, body = example_v4_body\<rparr>
        else Inr \<lparr>status = 404, body = ''Not Found''\<rparr>,
      json_loads := \<lambda>data.
        if data = example_v4_body
        then Inr (PyDict [(''assets'', PyList
               [PyDict [(''name'', PyStr ''y.tar.xz''), (''browser_download_url'', PyNone)]])])
        else Inl JSONDecodeError\<rparr>"

definition example_world :: world where
  "example_world =
     \<lparr>files = [''/tmp/tmpabcd1234.tar.xz'' \<mapsto> ''old''], requests = [], commands = []\<rparr>"

section \<open>Lemmas\<close>

lemma lower_char_a: "lower_char c = CHR ''a'' \<longleftrightarrow> c = CHR ''a'' \<or> c = CHR ''A''"
  by (cases c) (auto simp: lower_char_def Let_def char_of_def bit_Suc_0_iff)

lemma lower_char_r: "lower_char c = CHR ''r'' \<longleftrightarrow> c = CHR ''r'' \<or> c = CHR ''R''"
  by (cases c) (auto simp: lower_char_def Let_def char_of_def bit_Suc_0_iff)

lemma lower_char_m: "lower_char c = CHR ''m'' \<longleftrightarrow> c = CHR ''m'' \<or> c = CHR ''M''"
  by (cases c) (auto simp: lower_char_def Let_def char_of_def bit_Suc_0_iff)

lemma lower_char_c: "lower_char c = CHR ''c'' \<longleftrightarrow> c = CHR ''c'' \<or> c = CHR ''C''"
  by (cases c) (auto simp: lower_char_def Let_def char_of_def bit_Suc_0_iff)

lemma lower_char_h: "lower_char c = CHR ''h'' \<longleftrightarrow> c = CHR ''h'' \<or> c = CHR ''H''"
  by (cases c) (auto simp: lower_char_def Let_def char_of_def bit_Suc_0_iff)

lemma prefix_Cons_lower:
  "prefix (x # xs) (py_lower s) \<longleftrightarrow>
     (\<exists>c rest. s = c # rest \<and> lower_char c = x \<and> prefix xs (py_lower rest))"
  by (cases s) (auto simp: py_lower_def)

lemma prefix_arm_unfolded:
  "prefix ''arm'' (py_lower s) \<longleftrightarrow>
     (\<exists>c1 r1. s = c1 # r1 \<and> lower_char c1 = CHR ''a'' \<and>
       (\<exists>c2 r2. r1 = c2 # r2 \<and> lower_char c2 = CHR ''r'' \<and>
         (\<exists>c3 r3. r2 = c3 # r3 \<and> lower_char c3 = CHR ''m'')))"
  by (simp only: prefix_Cons_lower Nil_prefix simp_thms)

lemma prefix_arm_lower:
  "prefix ''arm'' (py_lower s) \<longleftrightarrow>
     (\<exists>c1 c2 c3 rest. s = c1 # c2 # c3 # rest \<and> (c1 = CHR ''a'' \<or> c1 = CHR ''A'') \<and>
        (c2 = CHR ''r'' \<or> c2 = CHR ''R'') \<and> (c3 = CHR ''m'' \<or> c3 = CHR ''M''))"
  unfolding prefix_arm_unfolded lower_char_a lower_char_r lower_char_m
  by (rule iffI; (elim exE conjE)?; hypsubst; intro exI conjI; (rule refl | assumption))

lemma prefix_aarch_unfolded:
  "prefix ''aarch'' (py_lower s) \<longleftrightarrow>
     (\<exists>c1 r1. s = c1 # r1 \<and> lower_char c1 = CHR ''a'' \<and>
       (\<exists>c2 r2. r1 = c2 # r2 \<and> lower_char c2 = CHR ''a'' \<and>
         (\<exists>c3 r3. r2 = c3 # r3 \<and> lower_char c3 = CHR ''r'' \<and>
           (\<exists>c4 r4. r3 = c4 # r4 \<and> lower_char c4 = CHR ''c'' \<and>
             (\<exists>c5 r5. r4 = c5 # r5 \<and> lower_char c5 = CHR ''h'')))))"
  by (simp only: prefix_Cons_lower Nil_prefix simp_thms)

lemma prefix_aarch_lower:
  "prefix ''aarch'' (py_lower s) \<longleftrightarrow>
     (\<exists>c1 c2 c3 c4 c5 rest. s = c1 # c2 # c3 # c4 # c5 # rest \<and>
        (c1 = CHR ''a'' \<or> c1 = CHR ''A'') \<and> (c2 = CHR ''a'' \<or> c2 = CHR ''A'') \<and>
        (c3 = CHR ''r'' \<or> c3 = CHR ''R'') \<and> (c4 = CHR ''c'' \<or> c4 = CHR ''C'') \<and>
        (c5 = CHR ''h'' \<or> c5 = CHR ''H''))"
  unfolding prefix_aarch_unfolded lower_char_a lower_char_r lower_char_c lower_char_h
  by (rule iffI; (elim exE conjE)?; hypsubst; intro exI conjI; (rule refl | assumption))

section \<open>The architecture probe\<close>

text \<open>
  Claim C8. \<open>machine_is_arm\<close> is true exactly when the machine string starts with
  \<^verbatim>\<open>arm\<close> or with \<^verbatim>\<open>aarch\<close>, each letter in either case; it is a total function of the
  machine string alone, and it changes nothing.
\<close>

theorem machine_is_arm_iff:
  "machine_is_arm h \<longleftrightarrow>
     (\<exists>c1 c2 c3 rest. machine h = c1 # c2 # c3 # rest \<and> (c1 = CHR ''a'' \<or> c1 = CHR ''A'') \<and>
        (c2 = CHR ''r'' \<or> c2 = CHR ''R'') \<and> (c3 = CHR ''m'' \<or> c3 = CHR ''M'')) \<or>
     (\<exists>c1 c2 c3 c4 c5 rest. machine h = c1 # c2 # c3 # c4 # c5 # rest \<and>
        (c1 = CHR ''a'' \<or> c1 = CHR ''A'') \<and> (c2 = CHR ''a'' \<or> c2 = CHR ''A'') \<and>
        (c3 = CHR ''r'' \<or> c3 = CHR ''R'') \<and> (c4 = CHR ''c'' \<or> c4 = CHR ''C'') \<and>
        (c5 = CHR ''h'' \<or> c5 = CHR ''H''))"
  unfolding machine_is_arm_def Let_def prefix_arm_lower prefix_aarch_lower ..

theorem machine_is_arm_witness:
  "machine_is_arm example_host \<and> machine_is_arm (example_host\<lparr>machine := ''armv7l''\<rparr>) \<and>
   \<not> machine_is_arm (example_host\<lparr>machine := ''x86_64''\<rparr>)"
  using machine_is_arm_iff [of example_host]
    machine_is_arm_iff [of "example_host\<lparr>machine := ''armv7l''\<rparr>"]
    machine_is_arm_iff [of "example_host\<lparr>machine := ''x86_64''\<rparr>"]
  by (simp add: example_host_def)

section \<open>Lemmas on lists and strings\<close>

lemma map_err_map_Inr: "map f xs = map Inr ys \<Longrightarrow> map_err f xs = Inr ys"
  by (induction xs arbitrary: ys) auto

lemma foldl_join:
  "foldl (\<lambda>res item. res @ sep @ item) s ss = s @ concat (map (\<lambda>t. sep @ t) ss)"
  by (induction ss arbitrary: s) auto

lemma comma_separated_Cons:
  "comma_separated (x # ys) = x @ concat (map (\<lambda>t. '', '' @ t) ys)"
  by (induction ys arbitrary: x) auto

lemma join_strings_comma: "join_strings '', '' xs = comma_separated xs"
proof (cases xs)
  case Nil
  then show ?thesis by simp
next
  case (Cons x ys)
  then show ?thesis
    using foldl_join [of "'', ''" x ys] comma_separated_Cons [of x ys] by simp
qed

lemma str_items_map_PyStr: "str_items (map PyStr xs) = Inr xs"
  by (induction xs) auto

lemma satisfy_argument_list:
  "satisfy_argument (PyList (map PyStr xs)) = Inr (PyStr (comma_separated xs))"
  by (simp add: satisfy_argument_def is_iterish_def py_join_def err_bind_def
      str_items_map_PyStr join_strings_comma)

lemma satisfy_argument_str: "satisfy_argument (PyStr s) = Inr (PyStr s)"
  by (simp add: satisfy_argument_def is_iterish_def)

text \<open>The decimal string of an integer determines the integer.\<close>

lemma of_char_digit_char: "d < 10 \<Longrightarrow> of_char (digit_char d) = 48 + d"
  by (simp add: digit_char_def)

lemma digit_char_inj: "a < 10 \<Longrightarrow> b < 10 \<Longrightarrow> digit_char a = digit_char b \<Longrightarrow> a = b"
proof -
  assume a: "a < 10" and b: "b < 10" and "digit_char a = digit_char b"
  then have "(of_char (digit_char a) :: nat) = of_char (digit_char b)" by simp
  with a b show "a = b" by (simp add: of_char_digit_char)
qed

lemma digit_char_not_minus: "d < 10 \<Longrightarrow> digit_char d \<noteq> CHR ''-''"
proof
  assume d: "d < 10" and "digit_char d = CHR ''-''"
  then have "(of_char (digit_char d) :: nat) = of_char CHR ''-''" by simp
  with d show False by (simp add: of_char_digit_char)
qed

lemma length_str_nat: "length (str_nat n) = Suc 0 \<longleftrightarrow> n < 10"
proof (cases "n < 10")
  case True
  then show ?thesis by (simp add: str_nat.simps [of n])
next
  case False
  have "length (str_nat (n div 10)) \<noteq> 0"
    by (simp add: str_nat.simps [of "n div 10"])
  with False show ?thesis by (simp add: str_nat.simps [of n])
qed

lemma str_nat_inj: "str_nat n = str_nat m \<Longrightarrow> n = m"
proof (induction n arbitrary: m rule: str_nat.induct)
  case (1 n)
  from "1.prems" have len: "length (str_nat n) = 1 \<longleftrightarrow> length (str_nat m) = 1" by simp
  show ?case
  proof (cases "n < 10")
    case True
    with len have m: "m < 10" by (simp add: length_str_nat)
    from "1.prems" True m have "digit_char n = digit_char m"
      by (simp add: str_nat.simps [of n] str_nat.simps [of m])
    with True m show ?thesis by (rule digit_char_inj)
  next
    case False
    with len have m: "\<not> m < 10" by (simp add: length_str_nat)
    from "1.prems" False m
    have "str_nat (n div 10) @ [digit_char (n mod 10)] = str_nat (m div 10) @ [digit_char (m mod 10)]"
      by (simp add: str_nat.simps [of n] str_nat.simps [of m])
    then have hi: "str_nat (n div 10) = str_nat (m div 10)"
      and lo: "digit_char (n mod 10) = digit_char (m mod 10)" by simp_all
    from "1.IH" [OF False hi] have "n div 10 = m div 10" .
    moreover from lo have "n mod 10 = m mod 10" by (intro digit_char_inj) simp_all
    ultimately show ?thesis by (metis div_mult_mod_eq)
  qed
qed

lemma hd_str_nat_not_minus: "str_nat n \<noteq> CHR ''-'' # s"
proof (induction n arbitrary: s rule: str_nat.induct)
  case (1 n)
  show ?case
  proof (cases "n < 10")
    case True
    then show ?thesis by (simp add: str_nat.simps [of n] digit_char_not_minus)
  next
    case False
    from "1.IH" [OF False] have "\<And>t. str_nat (n div 10) \<noteq> CHR ''-'' # t" .
    moreover have "str_nat (n div 10) \<noteq> []"
      by (simp add: str_nat.simps [of "n div 10"])
    ultimately show ?thesis using False
      by (cases "str_nat (n div 10)") (auto simp: str_nat.simps [of n])
  qed
qed

lemma py_str_int_inj: "py_str_int a = py_str_int b \<Longrightarrow> a = b"
  using hd_str_nat_not_minus [of "nat a"] hd_str_nat_not_minus [of "nat b"]
    hd_str_nat_not_minus [of "nat a", THEN not_sym] hd_str_nat_not_minus [of "nat b", THEN not_sym]
    str_nat_inj [of "nat a" "nat b"] str_nat_inj [of "nat (- a)" "nat (- b)"]
  by (auto simp: py_str_int_def split: if_splits)

lemma py_str_int_404: "py_str_int 404 = ''404''"
  by code_simp

section \<open>Package specifications\<close>

text \<open>
  Claim C7. \<open>apt_satisfy\<close> given a single specification string does what it does given the
  one-element list of that string: the same command with the same argument, the same result
  and the same world. Given a list of strings it passes, as the one specification argument,
  the strings joined with \<^verbatim>\<open>", "\<close> in the order of the list.
\<close>

theorem apt_satisfy_specification:
  "apt_satisfy h (PyStr s) w = apt_satisfy h (PyList [PyStr s]) w \<and>
   satisfy_argument (PyList (map PyStr xs)) = Inr (PyStr (comma_separated xs)) \<and>
   apt_satisfy h (PyList (map PyStr xs)) w =
     check_call h [PyStr ''apt'', PyStr ''satisfy'', PyStr ''-y'', PyStr (comma_separated xs)]
       (Some (dict_set ''DEBIAN_FRONTEND'' ''noninteractive'' (environ h))) w"
proof -
  have one: "satisfy_argument (PyList [PyStr s]) = Inr (PyStr s)"
    using satisfy_argument_list [of "[s]"] by simp
  show ?thesis
    by (simp add: apt_satisfy_def io_bind_def io_lift_def one satisfy_argument_str
        satisfy_argument_list)
qed

theorem apt_satisfy_specification_witness:
  "apt_satisfy example_host (PyStr ''a'') example_world =
     apt_satisfy example_host (PyList [PyStr ''a'']) example_world \<and>
   satisfy_argument (PyList [PyStr ''a'', PyStr ''b'']) = Inr (PyStr ''a, b'') \<and>
   commands (snd (apt_satisfy example_host (PyList [PyStr ''a'', PyStr ''b'']) example_world)) =
     [([PyStr ''apt'', PyStr ''satisfy'', PyStr ''-y'', PyStr ''a, b''],
       Some [(''PATH'', ''/usr/bin''), (''DEBIAN_FRONTEND'', ''noninteractive'')])]"
  using apt_satisfy_specification [of example_host "''a''" example_world "[''a'', ''b'']"]
  by (simp add: check_call_def Let_def example_host_def example_world_def example_run_def)

section \<open>The user check\<close>

text \<open>
  Claim C10. \<open>linux_user_exists\<close> returns \<^verbatim>\<open>False\<close> exactly when the \<^verbatim>\<open>getent\<close> command ran
  and exited with a non-zero code; when the command cannot be started, the error of starting
  it leaves the function as an exception.
\<close>

theorem linux_user_exists_False_iff:
  "(fst (linux_user_exists h user w) = Inr False \<longleftrightarrow>
      (\<exists>rc. run h [PyStr ''getent'', PyStr ''passwd'', user] None = Inr rc \<and> rc \<noteq> 0)) \<and>
   (\<forall>e. run h [PyStr ''getent'', PyStr ''passwd'', user] None = Inl e \<longrightarrow>
      fst (linux_user_exists h user w) = Inl (Raised e))"
  by (cases "run h [PyStr ''getent'', PyStr ''passwd'', user] None")
     (auto simp: linux_user_exists_def check_call_def Let_def)

theorem linux_user_exists_witness:
  "fst (linux_user_exists example_host (PyStr ''ghost'') example_world) = Inr False \<and>
   fst (linux_user_exists example_host (PyStr ''root'') example_world) \<noteq> Inr False \<and>
   fst (linux_user_exists example_host_no_getent (PyStr ''root'') example_world) =
     Inl (Raised FileNotFoundError)"
  using linux_user_exists_False_iff [of example_host "PyStr ''ghost''" example_world]
    linux_user_exists_False_iff [of example_host "PyStr ''root''" example_world]
    linux_user_exists_False_iff [of example_host_no_getent "PyStr ''root''" example_world]
  by (simp add: example_host_def example_host_no_getent_def example_run_def)

section \<open>Listing releases\<close>

text \<open>
  Claim C5. When the listing request is answered with status 200 and the body decodes to a
  list whose elements each have a \<^verbatim>\<open>tag_name\<close>, \<open>gh_list_releases\<close> returns these
  \<^verbatim>\<open>tag_name\<close> values, one for each element and in the order of the list.
\<close>

theorem gh_list_releases_tag_names:
  assumes "http h (length (requests w)) (PyStr (releases_url user repo)) = Inr r"
    and "status r = 200"
    and "json_loads h (body r) = Inr (PyList releases)"
    and "map (\<lambda>release. py_getitem release ''tag_name'') releases = map Inr tags"
  shows "fst (gh_list_releases h user repo w) = Inr tags \<and> length tags = length releases"
proof -
  have "length tags = length releases"
    using assms(4) by (metis length_map)
  moreover have "fst (gh_list_releases h user repo w) = Inr tags"
    using assms(1-3) map_err_map_Inr [OF assms(4)]
    by (simp add: gh_list_releases_def io_bind_def io_lift_def urlopen_def Let_def err_bind_def)
  ultimately show ?thesis by simp
qed

theorem gh_list_releases_witness:
  "fst (gh_list_releases example_host ''o'' ''p'' example_world) = Inr [PyStr ''v1'', PyStr ''v2'']"
proof -
  have "fst (gh_list_releases example_host ''o'' ''p'' example_world) =
          Inr [PyStr ''v1'', PyStr ''v2''] \<and>
        length [PyStr ''v1'', PyStr ''v2''] =
          length [PyDict [(''tag_name'', PyStr ''v1'')], PyDict [(''tag_name'', PyStr ''v2'')]]"
    by (rule gh_list_releases_tag_names [where r = "\<lparr>status = 200, body = example_tags_body\<rparr>"])
       (simp_all add: example_host_def example_world_def example_http_def example_loads_def
          releases_url_def)
  then show ?thesis by simp
qed

text \<open>
  Claim C6. When the listing request of \<open>gh_list_releases\<close>, or the release lookup of
  \<open>gh_download_release_asset\<close>, is answered with a status other than 200, the function
  raises \<^verbatim>\<open>Exception\<close> with the message \<^verbatim>\<open>HTTP error\<close> and the status in decimal, and
  the message determines the status. When \<^verbatim>\<open>urlopen\<close> itself raises \<^verbatim>\<open>HTTPError\<close> for the
  status, that error, which holds the status, leaves the function. Either way no value is
  returned, and the world is as before but for the one request made: no file is written and
  no second request is made.
\<close>

theorem status_not_200_fails:
  "(http h (length (requests w)) (PyStr (releases_url user repo)) = Inr r \<and> status r \<noteq> 200 \<longrightarrow>
      gh_list_releases h user repo w =
        (Inl (Exception (''HTTP error '' @ py_str_int (status r))),
         w\<lparr>requests := requests w @ [PyStr (releases_url user repo)]\<rparr>)) \<and>
   (http h (length (requests w)) (PyStr (release_url user repo tag)) = Inr r \<and> status r \<noteq> 200 \<longrightarrow>
      gh_download_release_asset h user repo tag extension destination w =
        (Inl (Exception (''HTTP error '' @ py_str_int (status r))),
         w\<lparr>requests := requests w @ [PyStr (release_url user repo tag)]\<rparr>)) \<and>
   (http h (length (requests w)) (PyStr (releases_url user repo)) = Inl (HTTPError code) \<longrightarrow>
      gh_list_releases h user repo w =
        (Inl (Raised (HTTPError code)),
         w\<lparr>requests := requests w @ [PyStr (releases_url user repo)]\<rparr>)) \<and>
   (http h (length (requests w)) (PyStr (release_url user repo tag)) = Inl (HTTPError code) \<longrightarrow>
      gh_download_release_asset h user repo tag extension destination w =
        (Inl (Raised (HTTPError code)),
         w\<lparr>requests := requests w @ [PyStr (release_url user repo tag)]\<rparr>)) \<and>
   (''HTTP error '' @ py_str_int a = ''HTTP error '' @ py_str_int b \<longrightarrow> a = b)"
  by (simp add: gh_list_releases_def gh_download_release_asset_def io_bind_def io_raise_def
      urlopen_def Let_def py_str_int_inj)

theorem status_not_200_fails_witness:
  "gh_list_releases example_host ''o'' ''q'' example_world =
     (Inl (Exception ''HTTP error 404''),
      example_world\<lparr>requests := [PyStr ''https://api.github.com/repos/o/q/releases'']\<rparr>) \<and>
   gh_download_release_asset example_host ''o'' ''q'' ''v1'' ''.tar.xz'' (Some ''/srv/p.tar.xz'')
       example_world =
     (Inl (Exception ''HTTP error 404''),
      example_world\<lparr>requests := [PyStr ''https://api.github.com/repos/o/q/releases/tags/v1'']\<rparr>) \<and>
   gh_list_releases example_host_http_error ''o'' ''p'' example_world =
     (Inl (Raised (HTTPError 404)),
      example_world\<lparr>requests := [PyStr ''https://api.github.com/repos/o/p/releases'']\<rparr>) \<and>
   gh_download_release_asset example_host_http_error ''o'' ''p'' ''v1'' ''.tar.xz''
       (Some ''/srv/p.tar.xz'') example_world =
     (Inl (Raised (HTTPError 404)),
      example_world\<lparr>requests := [PyStr ''https://api.github.com/repos/o/p/releases/tags/v1'']\<rparr>)"
  using status_not_200_fails [of example_host example_world "''o''" "''q''"
      "\<lparr>status = 404, body = ''Not Found''\<rparr>" "''v1''" "''.tar.xz''" "Some ''/srv/p.tar.xz''"]
    status_not_200_fails [where h = example_host_http_error and w = example_world
      and user = "''o''" and repo = "''p''" and tag = "''v1''" and code = 404
      and extension = "''.tar.xz''" and destination = "Some ''/srv/p.tar.xz''"]
  by (simp add: example_host_def example_host_http_error_def example_world_def example_http_def
      releases_url_def release_url_def py_str_int_404)

section \<open>Lemmas on the download\<close>

lemma find_asset_first_match:
  assumes "\<forall>x\<in>set pre. \<exists>n. py_getitem x ''name'' = Inr (PyStr n) \<and> \<not> suffix ext n"
    and "py_getitem a ''name'' = Inr (PyStr n)" and "suffix ext n"
  shows "find_asset ext (pre @ a # post) = py_getitem a ''browser_download_url''"
  using assms by (induction pre) auto

lemma suffix_path_join: "suffix s b \<Longrightarrow> suffix s (path_join a b)"
  by (auto simp: path_join_def suffix_def)

lemma path_join_tmp_not_empty: "path_join a (''tmp'' @ b) \<noteq> []"
  by (auto simp: path_join_def)

lemma mkstemp_inner_Some:
  "mkstemp_inner fs dir suf names = Some p \<Longrightarrow>
     fs p = None \<and> suffix suf p \<and> p \<noteq> [] \<and>
     (\<exists>name\<in>set names. p = path_join dir (''tmp'' @ name @ suf))"
proof (induction names)
  case Nil
  then show ?case by simp
next
  case (Cons name names)
  show ?case
  proof (cases "fs (path_join dir (''tmp'' @ name @ suf)) = None")
    case True
    with Cons.prems have p: "p = path_join dir (''tmp'' @ name @ suf)" by (simp add: Let_def)
    have "suffix suf (''tmp'' @ name @ suf)" by (simp add: suffix_def)
    then have "suffix suf p" unfolding p by (rule suffix_path_join)
    moreover have "p \<noteq> []" unfolding p by (rule path_join_tmp_not_empty)
    ultimately show ?thesis using True p by simp
  next
    case False
    with Cons show ?thesis by (auto simp: Let_def)
  qed
qed

lemma open_output_requests:
  "open_output h ext dest (w\<lparr>requests := rs\<rparr>) =
     (fst (open_output h ext dest w), (snd (open_output h ext dest w))\<lparr>requests := rs\<rparr>)"
  by (auto simp: open_output_def open_wb_def NamedTemporaryFile_def split: option.splits)

lemma open_output_Inr:
  "fst (open_output h ext dest w) = Inr p \<Longrightarrow>
     snd (open_output h ext dest w) = w\<lparr>files := (files w)(p \<mapsto> [])\<rparr>"
  by (auto simp: open_output_def open_wb_def NamedTemporaryFile_def split: option.splits if_splits)

lemma open_output_Inl:
  "fst (open_output h ext dest w) = Inl e \<Longrightarrow>
     snd (open_output h ext dest w) = w \<and> (\<exists>e'. e = Raised e')"
  by (auto simp: open_output_def open_wb_def NamedTemporaryFile_def split: option.splits if_splits)

lemma open_output_explicit:
  "d \<noteq> [] \<Longrightarrow> open_error h d = None \<Longrightarrow>
     open_output h ext (Some d) w = (Inr d, w\<lparr>files := (files w)(d \<mapsto> [])\<rparr>)"
  by (simp add: open_output_def open_wb_def)

lemma open_output_empty: "open_output h ext (Some []) w = open_output h ext None w"
  by (simp add: open_output_def)

lemma open_output_temporary:
  "fst (open_output h ext None w) = Inr p \<longleftrightarrow>
     mkstemp_inner (files w) (tempdir h) ext (random_names h) = Some p \<and> open_error h p = None"
  by (auto simp: open_output_def NamedTemporaryFile_def split: option.splits)

lemma gh_download_lookup:
  assumes "http h (length (requests w)) (PyStr (release_url user repo tag)) = Inr r1"
    and "status r1 = 200"
    and "json_loads h (body r1) = Inr info"
    and "py_getitem info ''assets'' = Inr (PyList assets)"
  shows "gh_download_release_asset h user repo tag ext dest w =
     (case find_asset ext assets of
        Inl e \<Rightarrow> (Inl e, w\<lparr>requests := requests w @ [PyStr (release_url user repo tag)]\<rparr>)
      | Inr url \<Rightarrow>
          if url = PyNone
          then (Inl (Exception (''No asset with extension '' @ ext @ '' found for release '' @ tag)),
                w\<lparr>requests := requests w @ [PyStr (release_url user repo tag)]\<rparr>)
          else io_bind (urlopen h url) (\<lambda>response.
                 io_bind (open_output h ext dest) (\<lambda>output.
                   io_bind (file_write output (body response)) (\<lambda>u. io_return output)))
                 (w\<lparr>requests := requests w @ [PyStr (release_url user repo tag)]\<rparr>))"
  using assms
  by (simp add: gh_download_release_asset_def io_bind_def io_lift_def io_raise_def urlopen_def
      Let_def err_bind_def split: sum.splits)

text \<open>The second request and the writing, for each answer of the host.\<close>

lemma download_failed_request:
  assumes "http h (length (requests w)) url = Inl e"
  shows "io_bind (urlopen h url) (\<lambda>response.
           io_bind (open_output h ext dest) (\<lambda>output.
             io_bind (file_write output (body response)) (\<lambda>u. io_return output))) w =
         (Inl (Raised e), w\<lparr>requests := requests w @ [url]\<rparr>)"
  using assms by (simp add: io_bind_def urlopen_def Let_def)

lemma download_failed_open:
  assumes "http h (length (requests w)) url = Inr r2"
    and "fst (open_output h ext dest w) = Inl e"
  shows "io_bind (urlopen h url) (\<lambda>response.
           io_bind (open_output h ext dest) (\<lambda>output.
             io_bind (file_write output (body response)) (\<lambda>u. io_return output))) w =
         (Inl e, w\<lparr>requests := requests w @ [url]\<rparr>)"
  using assms open_output_Inl [OF assms(2)]
  by (simp add: io_bind_def urlopen_def Let_def open_output_requests)

lemma download_written:
  assumes "http h (length (requests w)) url = Inr r2"
    and "fst (open_output h ext dest w) = Inr p"
  shows "io_bind (urlopen h url) (\<lambda>response.
           io_bind (open_output h ext dest) (\<lambda>output.
             io_bind (file_write output (body response)) (\<lambda>u. io_return output))) w =
         (Inr p, w\<lparr>requests := requests w @ [url], files := (files w)(p \<mapsto> body r2)\<rparr>)"
  using assms open_output_Inr [OF assms(2)]
  by (simp add: io_bind_def urlopen_def Let_def open_output_requests file_write_def io_return_def)

lemma download_cases:
  "(\<exists>e. io_bind (urlopen h url) (\<lambda>response.
           io_bind (open_output h ext dest) (\<lambda>output.
             io_bind (file_write output (body response)) (\<lambda>u. io_return output))) w =
         (Inl (Raised e), w\<lparr>requests := requests w @ [url]\<rparr>)) \<or>
   (\<exists>p (r2::response). io_bind (urlopen h url) (\<lambda>response.
           io_bind (open_output h ext dest) (\<lambda>output.
             io_bind (file_write output (body response)) (\<lambda>u. io_return output))) w =
         (Inr p, w\<lparr>requests := requests w @ [url], files := (files w)(p \<mapsto> body r2)\<rparr>) \<and>
       fst (open_output h ext dest w) = Inr p)"
proof (cases "http h (length (requests w)) url")
  case (Inl e)
  show ?thesis by (simp add: download_failed_request [OF Inl])
next
  case (Inr r2)
  show ?thesis
  proof (cases "fst (open_output h ext dest w)")
    case (Inl e)
    with open_output_Inl obtain e' where "e = Raised e'" by blast
    with download_failed_open [OF Inr Inl] show ?thesis by simp
  next
    case p: (Inr p)
    show ?thesis
      by (rule disjI2, rule exI [of _ p], rule exI [of _ r2])
         (simp add: download_written [OF Inr p] p)
  qed
qed

lemma open_output_empty_fun: "open_output h ext (Some []) = open_output h ext None"
  by (rule ext) (simp add: open_output_def)

lemma gh_download_unfold:
  "gh_download_release_asset h user repo tag ext dest w =
     (case http h (length (requests w)) (PyStr (release_url user repo tag)) of
        Inl e \<Rightarrow> (Inl (Raised e), w\<lparr>requests := requests w @ [PyStr (release_url user repo tag)]\<rparr>)
      | Inr r1 \<Rightarrow>
          if status r1 \<noteq> 200
          then (Inl (Exception (''HTTP error '' @ py_str_int (status r1))),
                w\<lparr>requests := requests w @ [PyStr (release_url user repo tag)]\<rparr>)
          else (case json_loads h (body r1) of
                  Inl e \<Rightarrow> (Inl (Raised e),
                            w\<lparr>requests := requests w @ [PyStr (release_url user repo tag)]\<rparr>)
                | Inr info \<Rightarrow>
                    (case err_bind (py_getitem info ''assets'') (\<lambda>assets.
                            err_bind (py_iter assets) (find_asset ext)) of
                       Inl e \<Rightarrow> (Inl e,
                                 w\<lparr>requests := requests w @ [PyStr (release_url user repo tag)]\<rparr>)
                     | Inr url \<Rightarrow>
                         if url = PyNone
                         then (Inl (Exception (''No asset with extension '' @ ext @
                                                 '' found for release '' @ tag)),
                               w\<lparr>requests := requests w @ [PyStr (release_url user repo tag)]\<rparr>)
                         else io_bind (urlopen h url) (\<lambda>response.
                                io_bind (open_output h ext dest) (\<lambda>output.
                                  io_bind (file_write output (body response)) (\<lambda>u.
                                    io_return output)))
                                (w\<lparr>requests := requests w @ [PyStr (release_url user repo tag)]\<rparr>))))"
  by (simp add: gh_download_release_asset_def io_bind_def io_lift_def io_raise_def urlopen_def
      Let_def split: sum.splits)

lemma download_shape:
  "(\<exists>e rs. io_bind (urlopen h url) (\<lambda>response.
              io_bind (open_output h ext dest) (\<lambda>output.
                io_bind (file_write output (body response)) (\<lambda>u. io_return output)))
              (w\<lparr>requests := rs0\<rparr>) = (Inl e, w\<lparr>requests := rs\<rparr>)) \<or>
   (\<exists>p rs data. io_bind (urlopen h url) (\<lambda>response.
              io_bind (open_output h ext dest) (\<lambda>output.
                io_bind (file_write output (body response)) (\<lambda>u. io_return output)))
              (w\<lparr>requests := rs0\<rparr>) =
        (Inr p, w\<lparr>requests := rs, files := (files w)(p \<mapsto> data)\<rparr>) \<and>
      fst (open_output h ext dest w) = Inr p)"
proof -
  let ?w1 = "w\<lparr>requests := rs0\<rparr>"
  define D where "D = io_bind (urlopen h url) (\<lambda>response.
              io_bind (open_output h ext dest) (\<lambda>output.
                io_bind (file_write output (body response)) (\<lambda>u. io_return output))) ?w1"
  have cases: "(\<exists>e. D = (Inl (Raised e), ?w1\<lparr>requests := requests ?w1 @ [url]\<rparr>)) \<or>
     (\<exists>p (r2::response). D =
         (Inr p, ?w1\<lparr>requests := requests ?w1 @ [url], files := (files ?w1)(p \<mapsto> body r2)\<rparr>) \<and>
         fst (open_output h ext dest ?w1) = Inr p)"
    unfolding D_def by (rule download_cases)
  have "(\<exists>e rs. D = (Inl e, w\<lparr>requests := rs\<rparr>)) \<or>
     (\<exists>p rs data. D = (Inr p, w\<lparr>requests := rs, files := (files w)(p \<mapsto> data)\<rparr>) \<and>
        fst (open_output h ext dest w) = Inr p)"
    using cases
  proof
    assume "\<exists>e. D = (Inl (Raised e), ?w1\<lparr>requests := requests ?w1 @ [url]\<rparr>)"
    then obtain e where "D = (Inl (Raised e), ?w1\<lparr>requests := requests ?w1 @ [url]\<rparr>)" ..
    then have "D = (Inl (Raised e), w\<lparr>requests := rs0 @ [url]\<rparr>)" by simp
    then show ?thesis by blast
  next
    assume "\<exists>p (r2::response). D =
         (Inr p, ?w1\<lparr>requests := requests ?w1 @ [url], files := (files ?w1)(p \<mapsto> body r2)\<rparr>) \<and>
         fst (open_output h ext dest ?w1) = Inr p"
    then obtain p and r2 :: response where "D =
         (Inr p, ?w1\<lparr>requests := requests ?w1 @ [url], files := (files ?w1)(p \<mapsto> body r2)\<rparr>)"
      and "fst (open_output h ext dest ?w1) = Inr p" by blast
    then have "D = (Inr p, w\<lparr>requests := rs0 @ [url], files := (files w)(p \<mapsto> body r2)\<rparr>) \<and>
        fst (open_output h ext dest w) = Inr p"
      by (simp add: open_output_requests)
    then show ?thesis by blast
  qed
  then show ?thesis unfolding D_def .
qed

lemma gh_download_cases:
  "(\<exists>e rs. gh_download_release_asset h user repo tag ext dest w = (Inl e, w\<lparr>requests := rs\<rparr>)) \<or>
   (\<exists>p rs data. gh_download_release_asset h user repo tag ext dest w =
        (Inr p, w\<lparr>requests := rs, files := (files w)(p \<mapsto> data)\<rparr>) \<and>
      fst (open_output h ext dest w) = Inr p)"
proof -
  let ?w1 = "w\<lparr>requests := requests w @ [PyStr (release_url user repo tag)]\<rparr>"
  let ?P = "\<lambda>r. (\<exists>e rs. r = (Inl e, w\<lparr>requests := rs\<rparr>)) \<or>
     (\<exists>p rs data. r = (Inr p, w\<lparr>requests := rs, files := (files w)(p \<mapsto> data)\<rparr>) \<and>
        fst (open_output h ext dest w) = Inr p)"
  have dl: "?P (io_bind (urlopen h url) (\<lambda>response.
                 io_bind (open_output h ext dest) (\<lambda>output.
                   io_bind (file_write output (body response)) (\<lambda>u. io_return output))) ?w1)"
    for url
    by (rule download_shape)
  show ?thesis
  proof (cases "http h (length (requests w)) (PyStr (release_url user repo tag))")
    case (Inl e)
    then show ?thesis by (simp add: gh_download_unfold; blast)
  next
    case r1: (Inr r1)
    show ?thesis
    proof (cases "status r1 = 200")
      case False
      with r1 show ?thesis by (simp add: gh_download_unfold; blast)
    next
      case ok: True
      show ?thesis
      proof (cases "json_loads h (body r1)")
        case (Inl e)
        with r1 ok show ?thesis by (simp add: gh_download_unfold; blast)
      next
        case info: (Inr info)
        show ?thesis
        proof (cases "err_bind (py_getitem info ''assets'') (\<lambda>assets.
                        err_bind (py_iter assets) (find_asset ext))")
          case (Inl e)
          with r1 ok info show ?thesis by (simp add: gh_download_unfold; blast)
        next
          case url: (Inr url)
          show ?thesis
          proof (cases "url = PyNone")
            case True
            with r1 ok info url show ?thesis by (simp add: gh_download_unfold; blast)
          next
            case False
            with r1 ok info url
            have "gh_download_release_asset h user repo tag ext dest w =
                io_bind (urlopen h url) (\<lambda>response.
                  io_bind (open_output h ext dest) (\<lambda>output.
                    io_bind (file_write output (body response)) (\<lambda>u. io_return output))) ?w1"
              by (simp add: gh_download_unfold)
            then show ?thesis using dl [of url] by simp
          qed
        qed
      qed
    qed
  qed
qed

text \<open>When the loop ends without a URL, and which exceptions it raises.\<close>

lemma py_getitem_error: "py_getitem x k = Inl e \<Longrightarrow> e = KeyError k \<or> e = TypeError"
  by (cases x) (auto split: option.splits)

lemma py_endswith_Inr: "py_endswith name ext = Inr b \<Longrightarrow> \<exists>n. name = PyStr n \<and> b = suffix ext n"
  by (cases name) auto

lemma py_endswith_error: "py_endswith name ext = Inl e \<Longrightarrow> e = TypeError \<or> e = AttributeError"
  by (cases name) auto

lemma find_asset_error: "find_asset ext assets = Inl e \<Longrightarrow> e \<noteq> Exception m"
proof (induction assets)
  case Nil
  then show ?case by simp
next
  case (Cons x xs)
  then show ?case
    by (auto split: sum.splits if_splits dest: py_getitem_error py_endswith_error)
qed

lemma find_asset_None_imp:
  "find_asset ext assets = Inr PyNone \<Longrightarrow>
     (\<forall>x\<in>set assets. \<exists>n. py_getitem x ''name'' = Inr (PyStr n) \<and> \<not> suffix ext n) \<or>
     (\<exists>pre a post n. assets = pre @ a # post \<and>
        (\<forall>x\<in>set pre. \<exists>m. py_getitem x ''name'' = Inr (PyStr m) \<and> \<not> suffix ext m) \<and>
        py_getitem a ''name'' = Inr (PyStr n) \<and> suffix ext n \<and>
        py_getitem a ''browser_download_url'' = Inr PyNone)"
proof (induction assets)
  case Nil
  then show ?case by simp
next
  case (Cons x xs)
  from Cons.prems obtain name where name: "py_getitem x ''name'' = Inr name"
    by (auto split: sum.splits)
  with Cons.prems obtain b where b: "py_endswith name ext = Inr b"
    by (auto split: sum.splits)
  then obtain n where n: "name = PyStr n" "b = suffix ext n"
    using py_endswith_Inr by blast
  show ?case
  proof (cases "suffix ext n")
    case True
    with Cons.prems name n have "py_getitem x ''browser_download_url'' = Inr PyNone" by simp
    with name n True have "x # xs = [] @ x # xs \<and>
        (\<forall>y\<in>set []. \<exists>m. py_getitem y ''name'' = Inr (PyStr m) \<and> \<not> suffix ext m) \<and>
        py_getitem x ''name'' = Inr (PyStr n) \<and> suffix ext n \<and>
        py_getitem x ''browser_download_url'' = Inr PyNone" by simp
    then show ?thesis by blast
  next
    case False
    with Cons.prems name n have "find_asset ext xs = Inr PyNone" by simp
    from Cons.IH [OF this] show ?thesis
    proof
      assume "\<forall>y\<in>set xs. \<exists>m. py_getitem y ''name'' = Inr (PyStr m) \<and> \<not> suffix ext m"
      with name n False show ?thesis by simp
    next
      assume "\<exists>pre a post k. xs = pre @ a # post \<and>
        (\<forall>y\<in>set pre. \<exists>m. py_getitem y ''name'' = Inr (PyStr m) \<and> \<not> suffix ext m) \<and>
        py_getitem a ''name'' = Inr (PyStr k) \<and> suffix ext k \<and>
        py_getitem a ''browser_download_url'' = Inr PyNone"
      then obtain pre a post k where "xs = pre @ a # post"
        "\<forall>y\<in>set pre. \<exists>m. py_getitem y ''name'' = Inr (PyStr m) \<and> \<not> suffix ext m"
        "py_getitem a ''name'' = Inr (PyStr k)" "suffix ext k"
        "py_getitem a ''browser_download_url'' = Inr PyNone" by blast
      with name n False have "x # xs = (x # pre) @ a # post \<and>
        (\<forall>y\<in>set (x # pre). \<exists>m. py_getitem y ''name'' = Inr (PyStr m) \<and> \<not> suffix ext m) \<and>
        py_getitem a ''name'' = Inr (PyStr k) \<and> suffix ext k \<and>
        py_getitem a ''browser_download_url'' = Inr PyNone" by simp
      then show ?thesis by blast
    qed
  qed
qed

lemma find_asset_None_iff:
  "find_asset ext assets = Inr PyNone \<longleftrightarrow>
     (\<forall>x\<in>set assets. \<exists>n. py_getitem x ''name'' = Inr (PyStr n) \<and> \<not> suffix ext n) \<or>
     (\<exists>pre a post n. assets = pre @ a # post \<and>
        (\<forall>x\<in>set pre. \<exists>m. py_getitem x ''name'' = Inr (PyStr m) \<and> \<not> suffix ext m) \<and>
        py_getitem a ''name'' = Inr (PyStr n) \<and> suffix ext n \<and>
        py_getitem a ''browser_download_url'' = Inr PyNone)"
  (is "?lhs \<longleftrightarrow> ?none \<or> ?null")
proof
  assume ?lhs
  then show "?none \<or> ?null" by (rule find_asset_None_imp)
next
  assume "?none \<or> ?null"
  then show ?lhs
  proof
    assume ?none
    then show ?lhs
      by (induction assets) auto
  next
    assume ?null
    then obtain pre a post n where "assets = pre @ a # post"
      and pre: "\<forall>x\<in>set pre. \<exists>m. py_getitem x ''name'' = Inr (PyStr m) \<and> \<not> suffix ext m"
      and a: "py_getitem a ''name'' = Inr (PyStr n)" "suffix ext n"
      and url: "py_getitem a ''browser_download_url'' = Inr PyNone" by blast
    with find_asset_first_match [OF pre a, of post] show ?lhs by simp
  qed
qed

lemmas example_defs = example_host_def example_world_def example_http_def example_loads_def
  example_asset_def example_tags_body_def example_v1_body_def example_v2_body_def
  example_v3_body_def release_url_def releases_url_def

lemma example_download_temporary:
  "gh_download_release_asset example_host ''o'' ''p'' ''v1'' ''.tar.xz'' None example_world =
     (Inr ''/tmp/tmpefgh5678.tar.xz'',
      example_world\<lparr>requests := [PyStr ''https://api.github.com/repos/o/p/releases/tags/v1'',
                                  PyStr ''U''],
                    files := (files example_world)(''/tmp/tmpefgh5678.tar.xz'' \<mapsto> ''archive'')\<rparr>)"
  by (simp add: gh_download_release_asset_def io_bind_def io_lift_def io_raise_def io_return_def
      urlopen_def Let_def err_bind_def open_output_def NamedTemporaryFile_def file_write_def
      example_defs path_join_def suffix_to_prefix)

section \<open>Downloading a release asset\<close>

text \<open>
  Claim C1. When the release lookup succeeds and the asset list holds an asset whose name
  ends with the extension, the download request goes to the \<^verbatim>\<open>browser_download_url\<close> of
  the first such asset in the order of the list, and to no other: the requests made are the
  lookup and this one. The assets after it are not looked at: the list after the first match
  is arbitrary. The match is the exact suffix test on the characters of the name.
\<close>

theorem first_matching_asset_is_selected:
  assumes "http h (length (requests w)) (PyStr (release_url user repo tag)) = Inr r1"
    and "status r1 = 200"
    and "json_loads h (body r1) = Inr info"
    and "py_getitem info ''assets'' = Inr (PyList (pre @ a # post))"
    and "\<forall>x\<in>set pre. \<exists>n. py_getitem x ''name'' = Inr (PyStr n) \<and> \<not> suffix ext n"
    and "py_getitem a ''name'' = Inr (PyStr n)"
    and "suffix ext n"
    and "py_getitem a ''browser_download_url'' = Inr (PyStr u)"
  shows "find_asset ext (pre @ a # post) = Inr (PyStr u) \<and>
         requests (snd (gh_download_release_asset h user repo tag ext dest w)) =
           requests w @ [PyStr (release_url user repo tag), PyStr u]"
proof -
  let ?w1 = "w\<lparr>requests := requests w @ [PyStr (release_url user repo tag)]\<rparr>"
  have found: "find_asset ext (pre @ a # post) = Inr (PyStr u)"
    using find_asset_first_match [OF assms(5-7)] assms(8) by simp
  have run: "gh_download_release_asset h user repo tag ext dest w =
      io_bind (urlopen h (PyStr u)) (\<lambda>response.
        io_bind (open_output h ext dest) (\<lambda>output.
          io_bind (file_write output (body response)) (\<lambda>u. io_return output))) ?w1"
    using gh_download_lookup [OF assms(1-4), of ext dest] found by simp
  have "requests (snd (gh_download_release_asset h user repo tag ext dest w)) =
          requests ?w1 @ [PyStr u]"
    using download_cases [of h "PyStr u" ext dest ?w1] unfolding run by auto
  with found show ?thesis by simp
qed

theorem first_matching_asset_witness:
  "find_asset ''.tar.xz'' [example_asset ''x.zip'' ''Z'', example_asset ''y.tar.xz'' ''U'',
      example_asset ''z.tar.xz'' ''V'', PyNone] = Inr (PyStr ''U'') \<and>
   requests (snd (gh_download_release_asset example_host ''o'' ''p'' ''v1'' ''.tar.xz''
      (Some ''/srv/p.tar.xz'') example_world)) =
     [PyStr ''https://api.github.com/repos/o/p/releases/tags/v1'', PyStr ''U'']"
proof -
  have "find_asset ''.tar.xz'' ([example_asset ''x.zip'' ''Z''] @ example_asset ''y.tar.xz'' ''U'' #
          [example_asset ''z.tar.xz'' ''V'', PyNone]) = Inr (PyStr ''U'') \<and>
        requests (snd (gh_download_release_asset example_host ''o'' ''p'' ''v1'' ''.tar.xz''
          (Some ''/srv/p.tar.xz'') example_world)) =
        requests example_world @ [PyStr (release_url ''o'' ''p'' ''v1''), PyStr ''U'']"
    by (rule first_matching_asset_is_selected
          [where ?r1.0 = "\<lparr>status = 200, body = example_v1_body\<rparr>"
             and info = "PyDict [(''assets'', PyList [example_asset ''x.zip'' ''Z'',
               example_asset ''y.tar.xz'' ''U'', example_asset ''z.tar.xz'' ''V'', PyNone])]"
             and n = "''y.tar.xz''"])
       (simp_all add: example_defs suffix_to_prefix)
  then show ?thesis by (simp add: example_world_def release_url_def)
qed

text \<open>
  Claim C2, as amended. When the release lookup succeeds,
  \<open>gh_download_release_asset\<close> raises \<^verbatim>\<open>Exception\<close> with the message naming the extension
  and the tag if and only if the loop ends without a URL: either every asset has a name and
  no name ends with the extension, or the first asset whose name ends with the extension has
  \<^verbatim>\<open>null\<close> as its \<^verbatim>\<open>browser_download_url\<close>. Whenever this exception is raised, the world is
  as before but for the lookup request: no download request is made and no file is written.
\<close>

theorem asset_not_found_iff_no_url:
  assumes "http h (length (requests w)) (PyStr (release_url user repo tag)) = Inr r1"
    and "status r1 = 200"
    and "json_loads h (body r1) = Inr info"
    and "py_getitem info ''assets'' = Inr (PyList assets)"
  shows "(fst (gh_download_release_asset h user repo tag ext dest w) =
            Inl (Exception (''No asset with extension '' @ ext @ '' found for release '' @ tag))
          \<longleftrightarrow>
            (\<forall>x\<in>set assets. \<exists>n. py_getitem x ''name'' = Inr (PyStr n) \<and> \<not> suffix ext n) \<or>
            (\<exists>pre a post n. assets = pre @ a # post \<and>
               (\<forall>x\<in>set pre. \<exists>m. py_getitem x ''name'' = Inr (PyStr m) \<and> \<not> suffix ext m) \<and>
               py_getitem a ''name'' = Inr (PyStr n) \<and> suffix ext n \<and>
               py_getitem a ''browser_download_url'' = Inr PyNone)) \<and>
         (fst (gh_download_release_asset h user repo tag ext dest w) =
            Inl (Exception (''No asset with extension '' @ ext @ '' found for release '' @ tag))
          \<longrightarrow>
            snd (gh_download_release_asset h user repo tag ext dest w) =
              w\<lparr>requests := requests w @ [PyStr (release_url user repo tag)]\<rparr>)"
proof -
  let ?w1 = "w\<lparr>requests := requests w @ [PyStr (release_url user repo tag)]\<rparr>"
  let ?msg = "''No asset with extension '' @ ext @ '' found for release '' @ tag"
  let ?r = "gh_download_release_asset h user repo tag ext dest w"
  note lookup = gh_download_lookup [OF assms(1-4), of ext dest]
  have raised: "fst ?r = Inl (Exception ?msg) \<longleftrightarrow> find_asset ext assets = Inr PyNone"
    and world: "find_asset ext assets = Inr PyNone \<Longrightarrow> snd ?r = ?w1"
  proof -
    show "find_asset ext assets = Inr PyNone \<Longrightarrow> snd ?r = ?w1"
      using lookup by simp
    show "fst ?r = Inl (Exception ?msg) \<longleftrightarrow> find_asset ext assets = Inr PyNone"
    proof (cases "find_asset ext assets")
      case (Inl e)
      with find_asset_error [OF Inl, of ?msg] lookup show ?thesis by simp
    next
      case (Inr url)
      show ?thesis
      proof (cases "url = PyNone")
        case True
        with Inr lookup show ?thesis by simp
      next
        case False
        with Inr lookup have run: "?r =
            io_bind (urlopen h url) (\<lambda>response.
              io_bind (open_output h ext dest) (\<lambda>output.
                io_bind (file_write output (body response)) (\<lambda>u. io_return output))) ?w1"
          by simp
        have "fst ?r \<noteq> Inl (Exception ?msg)"
          using download_cases [of h url ext dest ?w1] unfolding run by auto
        with Inr False show ?thesis by simp
      qed
    qed
  qed
  from raised world show ?thesis
    unfolding find_asset_None_iff [symmetric] by blast
qed

theorem asset_not_found_witness:
  "fst (gh_download_release_asset example_host ''o'' ''p'' ''v2'' ''.tar.xz'' None example_world) =
     Inl (Exception ''No asset with extension .tar.xz found for release v2'') \<and>
   snd (gh_download_release_asset example_host ''o'' ''p'' ''v2'' ''.tar.xz'' None example_world) =
     example_world\<lparr>requests := [PyStr ''https://api.github.com/repos/o/p/releases/tags/v2'']\<rparr> \<and>
   fst (gh_download_release_asset example_host_null_url ''o'' ''p'' ''v4'' ''.tar.xz'' None
      example_world) =
     Inl (Exception ''No asset with extension .tar.xz found for release v4'') \<and>
   snd (gh_download_release_asset example_host_null_url ''o'' ''p'' ''v4'' ''.tar.xz'' None
      example_world) =
     example_world\<lparr>requests := [PyStr ''https://api.github.com/repos/o/p/releases/tags/v4'']\<rparr>"
proof -
  let ?r2 = "gh_download_release_asset example_host ''o'' ''p'' ''v2'' ''.tar.xz'' None example_world"
  let ?r4 = "gh_download_release_asset example_host_null_url ''o'' ''p'' ''v4'' ''.tar.xz'' None
      example_world"
  let ?a4 = "PyDict [(''name'', PyStr ''y.tar.xz''), (''browser_download_url'', PyNone)]"
  let ?cond = "\<lambda>assets.
      (\<forall>x\<in>set assets. \<exists>n. py_getitem x ''name'' = Inr (PyStr n) \<and> \<not> suffix ''.tar.xz'' n) \<or>
      (\<exists>pre a post n. assets = pre @ a # post \<and>
         (\<forall>x\<in>set pre. \<exists>m. py_getitem x ''name'' = Inr (PyStr m) \<and> \<not> suffix ''.tar.xz'' m) \<and>
         py_getitem a ''name'' = Inr (PyStr n) \<and> suffix ''.tar.xz'' n \<and>
         py_getitem a ''browser_download_url'' = Inr PyNone)"
  have c2: "(fst ?r2 = Inl (Exception (''No asset with extension '' @ ''.tar.xz'' @
              '' found for release '' @ ''v2'')) \<longleftrightarrow> ?cond [example_asset ''x.zip'' ''Z'']) \<and>
        (fst ?r2 = Inl (Exception (''No asset with extension '' @ ''.tar.xz'' @
              '' found for release '' @ ''v2'')) \<longrightarrow>
         snd ?r2 = example_world\<lparr>requests := requests example_world @
            [PyStr (release_url ''o'' ''p'' ''v2'')]\<rparr>)"
    by (rule asset_not_found_iff_no_url
          [where ?r1.0 = "\<lparr>status = 200, body = example_v2_body\<rparr>"
             and info = "PyDict [(''assets'', PyList [example_asset ''x.zip'' ''Z''])]"])
       (simp_all add: example_defs)
  have c4: "(fst ?r4 = Inl (Exception (''No asset with extension '' @ ''.tar.xz'' @
              '' found for release '' @ ''v4'')) \<longleftrightarrow> ?cond [?a4]) \<and>
        (fst ?r4 = Inl (Exception (''No asset with extension '' @ ''.tar.xz'' @
              '' found for release '' @ ''v4'')) \<longrightarrow>
         snd ?r4 = example_world\<lparr>requests := requests example_world @
            [PyStr (release_url ''o'' ''p'' ''v4'')]\<rparr>)"
    by (rule asset_not_found_iff_no_url
          [where ?r1.0 = "\<lparr>status = 200, body = example_v4_body\<rparr>"
             and info = "PyDict [(''assets'', PyList [?a4])]"])
       (simp_all add: example_host_null_url_def example_host_def example_world_def
          release_url_def)
  have none2: "?cond [example_asset ''x.zip'' ''Z'']"
    by (rule disjI1) (simp add: example_asset_def suffix_to_prefix)
  have "[?a4] = [] @ ?a4 # [] \<and>
         (\<forall>x\<in>set []. \<exists>m. py_getitem x ''name'' = Inr (PyStr m) \<and> \<not> suffix ''.tar.xz'' m) \<and>
         py_getitem ?a4 ''name'' = Inr (PyStr ''y.tar.xz'') \<and> suffix ''.tar.xz'' ''y.tar.xz'' \<and>
         py_getitem ?a4 ''browser_download_url'' = Inr PyNone"
    by (simp add: suffix_to_prefix)
  then have null4: "?cond [?a4]" by blast
  from c2 none2 have "fst ?r2 = Inl (Exception (''No asset with extension '' @ ''.tar.xz'' @
              '' found for release '' @ ''v2'')) \<and>
      snd ?r2 = example_world\<lparr>requests := requests example_world @
            [PyStr (release_url ''o'' ''p'' ''v2'')]\<rparr>" by blast
  moreover from c4 null4 have "fst ?r4 = Inl (Exception (''No asset with extension '' @
              ''.tar.xz'' @ '' found for release '' @ ''v4'')) \<and>
      snd ?r4 = example_world\<lparr>requests := requests example_world @
            [PyStr (release_url ''o'' ''p'' ''v4'')]\<rparr>" by blast
  ultimately show ?thesis by (simp add: example_world_def release_url_def)
qed

text \<open>
  The claim as it was stated, with no asset name ending with the extension as the only
  cause, does not hold: the release \<^verbatim>\<open>v4\<close> has an asset named \<^verbatim>\<open>y.tar.xz\<close>, and asking
  for \<^verbatim>\<open>.tar.xz\<close> raises the exception all the same, because the code tests
  \<^verbatim>\<open>asset_url is None\<close> and the URL of that asset is \<^verbatim>\<open>null\<close>.
\<close>

theorem asset_not_found_counterexample:
  "fst (gh_download_release_asset example_host_null_url ''o'' ''p'' ''v4'' ''.tar.xz'' None
      example_world) =
     Inl (Exception ''No asset with extension .tar.xz found for release v4'') \<and>
   json_loads example_host_null_url example_v4_body =
     Inr (PyDict [(''assets'', PyList
       [PyDict [(''name'', PyStr ''y.tar.xz''), (''browser_download_url'', PyNone)]])]) \<and>
   py_getitem (PyDict [(''name'', PyStr ''y.tar.xz''), (''browser_download_url'', PyNone)])
     ''name'' = Inr (PyStr ''y.tar.xz'') \<and>
   suffix ''.tar.xz'' ''y.tar.xz''"
  by (simp add: gh_download_release_asset_def io_bind_def io_lift_def io_raise_def
      urlopen_def Let_def err_bind_def example_host_null_url_def example_host_def
      example_world_def example_v4_body_def release_url_def suffix_to_prefix)

text \<open>
  Claim C3. The status of the answer to the download request is not looked at: whatever the
  status, when the output file can be opened the function returns its path and the file
  holds the body of that answer.
\<close>

theorem download_status_is_not_checked:
  assumes "http h (length (requests w)) (PyStr (release_url user repo tag)) = Inr r1"
    and "status r1 = 200"
    and "json_loads h (body r1) = Inr info"
    and "py_getitem info ''assets'' = Inr (PyList assets)"
    and "find_asset ext assets = Inr url"
    and "url \<noteq> PyNone"
    and "http h (Suc (length (requests w))) url = Inr r2"
    and "fst (open_output h ext dest w) = Inr path"
  shows "fst (gh_download_release_asset h user repo tag ext dest w) = Inr path \<and>
         files (snd (gh_download_release_asset h user repo tag ext dest w)) path = Some (body r2)"
proof -
  let ?w1 = "w\<lparr>requests := requests w @ [PyStr (release_url user repo tag)]\<rparr>"
  have run: "gh_download_release_asset h user repo tag ext dest w =
      io_bind (urlopen h url) (\<lambda>response.
        io_bind (open_output h ext dest) (\<lambda>output.
          io_bind (file_write output (body response)) (\<lambda>u. io_return output))) ?w1"
    using gh_download_lookup [OF assms(1-4), of ext dest] assms(5,6) by simp
  have second: "http h (length (requests ?w1)) url = Inr r2"
    using assms(7) by simp
  have opened: "fst (open_output h ext dest ?w1) = Inr path"
    using assms(8) by (simp add: open_output_requests)
  show ?thesis
    unfolding run download_written [OF second opened] by simp
qed

theorem download_status_witness:
  "http example_host 1 (PyStr ''E'') = Inr \<lparr>status = 404, body = ''Not Found''\<rparr> \<and>
   fst (gh_download_release_asset example_host ''o'' ''p'' ''v3'' ''.tar.xz''
      (Some ''/srv/p.tar.xz'') example_world) = Inr ''/srv/p.tar.xz'' \<and>
   files (snd (gh_download_release_asset example_host ''o'' ''p'' ''v3'' ''.tar.xz''
      (Some ''/srv/p.tar.xz'') example_world)) ''/srv/p.tar.xz'' = Some ''Not Found''"
proof -
  have "fst (gh_download_release_asset example_host ''o'' ''p'' ''v3'' ''.tar.xz''
          (Some ''/srv/p.tar.xz'') example_world) = Inr ''/srv/p.tar.xz'' \<and>
        files (snd (gh_download_release_asset example_host ''o'' ''p'' ''v3'' ''.tar.xz''
          (Some ''/srv/p.tar.xz'') example_world)) ''/srv/p.tar.xz'' =
        Some (body \<lparr>status = 404, body = ''Not Found''\<rparr>)"
    by (rule download_status_is_not_checked
          [where ?r1.0 = "\<lparr>status = 200, body = example_v3_body\<rparr>"
             and info = "PyDict [(''assets'', PyList [example_asset ''y.tar.xz'' ''E''])]"
             and assets = "[example_asset ''y.tar.xz'' ''E'']"
             and url = "PyStr ''E''"])
       (simp_all add: example_defs suffix_to_prefix open_output_def open_wb_def)
  then show ?thesis by (simp add: example_host_def example_http_def)
qed

text \<open>
  Claim C4. Given a destination path, the function writes the body of the answer to that
  path, replacing what was there, and returns the path. Given no destination, it creates a
  file that did not exist, whose name ends with the extension, writes the body there,
  leaves the file in place and returns its path.
\<close>

theorem destination_is_written_and_returned:
  assumes "http h (length (requests w)) (PyStr (release_url user repo tag)) = Inr r1"
    and "status r1 = 200"
    and "json_loads h (body r1) = Inr info"
    and "py_getitem info ''assets'' = Inr (PyList assets)"
    and "find_asset ext assets = Inr (PyStr u)"
    and "http h (Suc (length (requests w))) (PyStr u) = Inr r2"
  shows "(d \<noteq> [] \<and> open_error h d = None \<longrightarrow>
            gh_download_release_asset h user repo tag ext (Some d) w =
              (Inr d, w\<lparr>requests := requests w @ [PyStr (release_url user repo tag), PyStr u],
                        files := (files w)(d \<mapsto> body r2)\<rparr>)) \<and>
         (mkstemp_inner (files w) (tempdir h) ext (random_names h) = Some p \<and>
          open_error h p = None \<longrightarrow>
            gh_download_release_asset h user repo tag ext None w =
              (Inr p, w\<lparr>requests := requests w @ [PyStr (release_url user repo tag), PyStr u],
                        files := (files w)(p \<mapsto> body r2)\<rparr>) \<and>
            suffix ext p \<and> files w p = None)"
proof -
  let ?w1 = "w\<lparr>requests := requests w @ [PyStr (release_url user repo tag)]\<rparr>"
  have run: "gh_download_release_asset h user repo tag ext dest w =
      io_bind (urlopen h (PyStr u)) (\<lambda>response.
        io_bind (open_output h ext dest) (\<lambda>output.
          io_bind (file_write output (body response)) (\<lambda>u. io_return output))) ?w1" for dest
    using gh_download_lookup [OF assms(1-4), of ext dest] assms(5) by simp
  have second: "http h (length (requests ?w1)) (PyStr u) = Inr r2"
    using assms(6) by simp
  have written: "gh_download_release_asset h user repo tag ext dest w =
      (Inr q, w\<lparr>requests := requests w @ [PyStr (release_url user repo tag), PyStr u],
                files := (files w)(q \<mapsto> body r2)\<rparr>)"
    if "fst (open_output h ext dest w) = Inr q" for dest q
  proof -
    have "fst (open_output h ext dest ?w1) = Inr q"
      using that by (simp add: open_output_requests)
    from download_written [OF second this] show ?thesis
      unfolding run by simp
  qed
  have explicit: "gh_download_release_asset h user repo tag ext (Some d) w =
      (Inr d, w\<lparr>requests := requests w @ [PyStr (release_url user repo tag), PyStr u],
                files := (files w)(d \<mapsto> body r2)\<rparr>)"
    if "d \<noteq> []" "open_error h d = None"
    using that by (intro written) (simp add: open_output_explicit)
  have temporary: "gh_download_release_asset h user repo tag ext None w =
      (Inr p, w\<lparr>requests := requests w @ [PyStr (release_url user repo tag), PyStr u],
                files := (files w)(p \<mapsto> body r2)\<rparr>) \<and> suffix ext p \<and> files w p = None"
    if "mkstemp_inner (files w) (tempdir h) ext (random_names h) = Some p" "open_error h p = None"
    using that mkstemp_inner_Some [OF that(1)] written [of None p]
    by (simp add: open_output_temporary)
  from explicit temporary show ?thesis by blast
qed

theorem destination_witness:
  "gh_download_release_asset example_host ''o'' ''p'' ''v1'' ''.tar.xz'' (Some ''/srv/p.tar.xz'')
      example_world =
     (Inr ''/srv/p.tar.xz'',
      example_world\<lparr>requests := [PyStr ''https://api.github.com/repos/o/p/releases/tags/v1'',
                                  PyStr ''U''],
                    files := (files example_world)(''/srv/p.tar.xz'' \<mapsto> ''archive'')\<rparr>) \<and>
   gh_download_release_asset example_host ''o'' ''p'' ''v1'' ''.tar.xz'' None example_world =
     (Inr ''/tmp/tmpefgh5678.tar.xz'',
      example_world\<lparr>requests := [PyStr ''https://api.github.com/repos/o/p/releases/tags/v1'',
                                  PyStr ''U''],
                    files := (files example_world)(''/tmp/tmpefgh5678.tar.xz'' \<mapsto> ''archive'')\<rparr>) \<and>
   suffix ''.tar.xz'' ''/tmp/tmpefgh5678.tar.xz'' \<and>
   files example_world ''/tmp/tmpefgh5678.tar.xz'' = None"
proof -
  let ?d = "''/srv/p.tar.xz''" and ?p = "''/tmp/tmpefgh5678.tar.xz''"
  let ?rs = "requests example_world @ [PyStr (release_url ''o'' ''p'' ''v1''), PyStr ''U'']"
  let ?r2 = "\<lparr>status = 200, body = ''archive''\<rparr>"
  have "(?d \<noteq> [] \<and> open_error example_host ?d = None \<longrightarrow>
          gh_download_release_asset example_host ''o'' ''p'' ''v1'' ''.tar.xz'' (Some ?d)
            example_world =
          (Inr ?d, example_world\<lparr>requests := ?rs,
             files := (files example_world)(?d \<mapsto> body ?r2)\<rparr>)) \<and>
        (mkstemp_inner (files example_world) (tempdir example_host) ''.tar.xz''
           (random_names example_host) = Some ?p \<and> open_error example_host ?p = None \<longrightarrow>
          gh_download_release_asset example_host ''o'' ''p'' ''v1'' ''.tar.xz'' None example_world =
          (Inr ?p, example_world\<lparr>requests := ?rs,
             files := (files example_world)(?p \<mapsto> body ?r2)\<rparr>) \<and>
          suffix ''.tar.xz'' ?p \<and> files example_world ?p = None)"
    by (rule destination_is_written_and_returned
          [where ?r1.0 = "\<lparr>status = 200, body = example_v1_body\<rparr>"
             and info = "PyDict [(''assets'', PyList [example_asset ''x.zip'' ''Z'',
               example_asset ''y.tar.xz'' ''U'', example_asset ''z.tar.xz'' ''V'', PyNone])]"
             and assets = "[example_asset ''x.zip'' ''Z'',
               example_asset ''y.tar.xz'' ''U'', example_asset ''z.tar.xz'' ''V'', PyNone]"])
       (simp_all add: example_defs suffix_to_prefix)
  moreover have "?d \<noteq> [] \<and> open_error example_host ?d = None"
    by (simp add: example_host_def)
  moreover have "mkstemp_inner (files example_world) (tempdir example_host) ''.tar.xz''
           (random_names example_host) = Some ?p \<and> open_error example_host ?p = None"
    by (simp add: example_host_def example_world_def path_join_def suffix_to_prefix)
  ultimately show ?thesis
    by (simp add: example_world_def release_url_def)
qed

text \<open>
  Claim C9. With the empty string as destination the function does what it does with no
  destination: nothing is written to the path \<^verbatim>\<open>""\<close>, and when the call returns, it
  returns the path of a temporary file that did not exist before, whose name ends with the
  extension, and which holds data.
\<close>

theorem empty_destination_uses_temporary_file:
  "gh_download_release_asset h user repo tag ext (Some []) w =
     gh_download_release_asset h user repo tag ext None w \<and>
   files (snd (gh_download_release_asset h user repo tag ext (Some []) w)) [] = files w [] \<and>
   (\<forall>p. fst (gh_download_release_asset h user repo tag ext (Some []) w) = Inr p \<longrightarrow>
      p \<noteq> [] \<and> suffix ext p \<and> files w p = None \<and>
      mkstemp_inner (files w) (tempdir h) ext (random_names h) = Some p \<and>
      (\<exists>data. files (snd (gh_download_release_asset h user repo tag ext (Some []) w)) p = Some data))"
proof -
  let ?r = "gh_download_release_asset h user repo tag ext (Some []) w"
  have same: "?r = gh_download_release_asset h user repo tag ext None w"
    unfolding gh_download_release_asset_def open_output_empty_fun by (rule refl)
  have generated: "p \<noteq> [] \<and> suffix ext p \<and> files w p = None \<and>
      mkstemp_inner (files w) (tempdir h) ext (random_names h) = Some p"
    if "fst (open_output h ext (Some []) w) = Inr p" for p
  proof -
    from that have "mkstemp_inner (files w) (tempdir h) ext (random_names h) = Some p"
      by (simp add: open_output_empty open_output_temporary)
    with mkstemp_inner_Some [OF this] show ?thesis by simp
  qed
  from gh_download_cases [of h user repo tag ext "Some []" w]
  have rest: "files (snd ?r) [] = files w [] \<and>
    (\<forall>p. fst ?r = Inr p \<longrightarrow>
       p \<noteq> [] \<and> suffix ext p \<and> files w p = None \<and>
       mkstemp_inner (files w) (tempdir h) ext (random_names h) = Some p \<and>
       (\<exists>data. files (snd ?r) p = Some data))"
  proof
    assume "\<exists>e rs. ?r = (Inl e, w\<lparr>requests := rs\<rparr>)"
    then show ?thesis by auto
  next
    assume "\<exists>p rs data. ?r = (Inr p, w\<lparr>requests := rs, files := (files w)(p \<mapsto> data)\<rparr>) \<and>
      fst (open_output h ext (Some []) w) = Inr p"
    then obtain p rs data where
      r: "?r = (Inr p, w\<lparr>requests := rs, files := (files w)(p \<mapsto> data)\<rparr>)"
      and p: "fst (open_output h ext (Some []) w) = Inr p" by blast
    from generated [OF p] show ?thesis by (auto simp: r)
  qed
  from same rest show ?thesis by simp
qed

theorem empty_destination_witness:
  "gh_download_release_asset example_host ''o'' ''p'' ''v1'' ''.tar.xz'' (Some []) example_world =
     (Inr ''/tmp/tmpefgh5678.tar.xz'',
      example_world\<lparr>requests := [PyStr ''https://api.github.com/repos/o/p/releases/tags/v1'',
                                  PyStr ''U''],
                    files := (files example_world)(''/tmp/tmpefgh5678.tar.xz'' \<mapsto> ''archive'')\<rparr>) \<and>
   files (snd (gh_download_release_asset example_host ''o'' ''p'' ''v1'' ''.tar.xz'' (Some [])
      example_world)) [] = None"
proof -
  let ?r = "gh_download_release_asset example_host ''o'' ''p'' ''v1'' ''.tar.xz'' (Some [])
      example_world"
  note claim = empty_destination_uses_temporary_file
    [of example_host "''o''" "''p''" "''v1''" "''.tar.xz''" example_world]
  from claim have same: "?r =
      gh_download_release_asset example_host ''o'' ''p'' ''v1'' ''.tar.xz'' None example_world"
    by (rule conjunct1)
  from claim have kept: "files (snd ?r) [] = files example_world []"
    by (rule conjunct1 [OF conjunct2])
  have "files example_world [] = None"
    by (simp add: example_world_def)
  with kept have "files (snd ?r) [] = None" by simp
  with same show ?thesis by (simp only: example_download_temporary simp_thms)
qed

end
